theory Spec2Isabelle
  imports Complex_Main "HOL-Library.Sublist" "HOL-Library.Char_ord" "HOL-Library.List_Lexorder"
begin

section \<open>Python and pandas primitives used by the two scripts\<close>

text \<open>
  The repository holds two Python programs over the same CSV file: the interactive
  explorer \<^verbatim>\<open>app.py\<close> and the batch script \<^verbatim>\<open>src/data_analysis.py\<close>. Both are
  written against pandas, \<^verbatim>\<open>re\<close> and \<^verbatim>\<open>collections.Counter\<close>. This section models
  the library calls the two programs make; the following sections translate the programs
  themselves, statement by statement.

  Conventions. A cell that pandas holds as NaN/NaT is \<open>None\<close>. A column is the list of
  its cells in row order. An exception that leaves a function is the \<open>Inl\<close> branch of a
  sum. Texts are ASCII strings: \<^verbatim>\<open>\w\<close>, \<^verbatim>\<open>str.lower\<close> and \<^verbatim>\<open>str.split\<close> are modelled on
  the ASCII range. A cell of a text column is a text or NaN.
\<close>

datatype py_error =
    FileNotFoundError
  | KeyError string
  | IndexError
  | ReError
  | AttributeError

subsection \<open>Strings\<close>

definition is_word_char :: "char \<Rightarrow> bool" where
  \<comment> \<open>\<^verbatim>\<open>\w\<close>: a letter, a digit or the underscore.\<close>
  "is_word_char c =
     (let n = (of_char c :: nat)
      in (48 \<le> n \<and> n \<le> 57) \<or> (65 \<le> n \<and> n \<le> 90) \<or> n = 95 \<or> (97 \<le> n \<and> n \<le> 122))"

definition lower_char :: "char \<Rightarrow> char" where
  "lower_char c =
     (case map_of (zip ''ABCDEFGHIJKLMNOPQRSTUVWXYZ'' ''abcdefghijklmnopqrstuvwxyz'') c of
        Some l \<Rightarrow> l
      | None \<Rightarrow> c)"

definition lower :: "string \<Rightarrow> string" where
  \<comment> \<open>\<^verbatim>\<open>text.lower()\<close>\<close>
  "lower s = map lower_char s"

text \<open>
  \<^verbatim>\<open>re.findall(r'\b\w+\b', s)\<close>: the scan keeps the word being read in \<open>cur\<close>. A word
  starts at a word character that follows a non-word character (or the start), the greedy
  \<^verbatim>\<open>\w+\<close> runs to the last word character of the run, where the closing \<^verbatim>\<open>\b\<close> holds;
  so the matches are the maximal runs of word characters, left to right.
\<close>

fun findall_from :: "string \<Rightarrow> string \<Rightarrow> string list" where
  "findall_from cur [] = (if cur = [] then [] else [cur])"
| "findall_from cur (c # cs) =
     (if is_word_char c then findall_from (cur @ [c]) cs
      else if cur = [] then findall_from [] cs
      else cur # findall_from [] cs)"

definition findall_words :: "string \<Rightarrow> string list" where
  "findall_words s = findall_from [] s"

definition is_space :: "char \<Rightarrow> bool" where
  \<comment> \<open>The ASCII characters for which \<^verbatim>\<open>str.isspace\<close> holds.\<close>
  "is_space c =
     (let n = (of_char c :: nat) in (9 \<le> n \<and> n \<le> 13) \<or> (28 \<le> n \<and> n \<le> 32))"

fun split_from :: "string \<Rightarrow> string \<Rightarrow> string list" where
  \<comment> \<open>\<^verbatim>\<open>s.split()\<close>: the maximal runs of non-space characters.\<close>
  "split_from cur [] = (if cur = [] then [] else [cur])"
| "split_from cur (c # cs) =
     (if \<not> is_space c then split_from (cur @ [c]) cs
      else if cur = [] then split_from [] cs
      else cur # split_from [] cs)"

definition split_ws :: "string \<Rightarrow> string list" where
  "split_ws s = split_from [] s"

fun join_space :: "string list \<Rightarrow> string" where
  \<comment> \<open>\<^verbatim>\<open>' '.join(xs)\<close>\<close>
  "join_space [] = []"
| "join_space [x] = x"
| "join_space (x # y # ys) = x @ '' '' @ join_space (y # ys)"

subsection \<open>Series\<close>

fun dropna :: "'a option list \<Rightarrow> 'a list" where
  "dropna [] = []"
| "dropna (None # xs) = dropna xs"
| "dropna (Some x # xs) = x # dropna xs"

fun unique :: "'a list \<Rightarrow> 'a list" where
  \<comment> \<open>\<^verbatim>\<open>Series.unique()\<close>: the distinct values in order of first appearance (NaN is a
      value of its own when the column has one).\<close>
  "unique [] = []"
| "unique (x # xs) = x # removeAll x (unique xs)"

definition isin :: "'a option \<Rightarrow> 'a option list \<Rightarrow> bool" where
  \<comment> \<open>One cell of \<^verbatim>\<open>Series.isin(values)\<close>: membership; a NaN cell is in \<open>values\<close> only when
      \<open>values\<close> holds NaN.\<close>
  "isin x values = (x \<in> set values)"

text \<open>
  Counting into an insertion-ordered table, as \<^verbatim>\<open>Counter(words)\<close> does
  (\<^verbatim>\<open>self[elem] = self.get(elem, 0) + 1\<close> for each element in turn; a Python dict keeps
  its keys in the order of their first insertion) and as the hash table behind
  \<^verbatim>\<open>value_counts\<close> does.
\<close>

fun counter_add :: "('a \<times> nat) list \<Rightarrow> 'a \<Rightarrow> ('a \<times> nat) list" where
  "counter_add [] w = [(w, 1)]"
| "counter_add ((k, c) # d) w =
     (if k = w then (k, c + 1) # d else (k, c) # counter_add d w)"

definition Counter :: "'a list \<Rightarrow> ('a \<times> nat) list" where
  "Counter ws = foldl counter_add [] ws"

definition most_common :: "int \<Rightarrow> ('a \<times> nat) list \<Rightarrow> ('a \<times> nat) list" where
  \<comment> \<open>\<^verbatim>\<open>Counter.most_common(n)\<close> is \<^verbatim>\<open>heapq.nlargest(n, items, key=itemgetter(1))\<close>, that is
      \<^verbatim>\<open>sorted(items, key=itemgetter(1), reverse=True)[:n]\<close>: a stable sort by descending
      count, cut to the first \<open>n\<close> (none when \<open>n \<le> 0\<close>).\<close>
  "most_common n items = take (nat n) (sort_key (\<lambda>p. - int (snd p)) items)"

definition value_counts :: "'a option list \<Rightarrow> ('a \<times> nat) list" where
  \<comment> \<open>\<^verbatim>\<open>Series.value_counts()\<close>: NaN is dropped, the counts are in descending order.\<close>
  "value_counts col = sort_key (\<lambda>p. - int (snd p)) (Counter (dropna col))"

definition sort_index :: "('a::linorder \<times> nat) list \<Rightarrow> ('a \<times> nat) list" where
  "sort_index s = sort_key fst s"

definition nunique :: "'a option list \<Rightarrow> nat" where
  "nunique col = length (unique (dropna col))"

definition series_min :: "('a::linorder) option list \<Rightarrow> 'a option" where
  \<comment> \<open>\<^verbatim>\<open>Series.min()\<close> skips NaN and is NaN when nothing is left.\<close>
  "series_min col = (case dropna col of [] \<Rightarrow> None | y # ys \<Rightarrow> Some (fold min ys y))"

definition series_max :: "('a::linorder) option list \<Rightarrow> 'a option" where
  "series_max col = (case dropna col of [] \<Rightarrow> None | y # ys \<Rightarrow> Some (fold max ys y))"

definition mean :: "nat list \<Rightarrow> real option" where
  \<comment> \<open>\<^verbatim>\<open>Series.mean()\<close> of a column of counts: NaN for the empty column. The quotient is
      exact here; the rounding of the float is not modelled.\<close>
  "mean xs = (if xs = [] then None else Some (real (sum_list xs) / real (length xs)))"

definition mode :: "('a::linorder) option list \<Rightarrow> 'a list" where
  \<comment> \<open>\<^verbatim>\<open>Series.mode()\<close>: the most frequent values among the non-NaN cells, sorted;
      empty when every cell is NaN.\<close>
  "mode col =
     (let t = Counter (dropna col); top = fold max (map snd t) 0
      in sort (map fst (filter (\<lambda>p. snd p = top) t)))"

definition iloc0 :: "'a list \<Rightarrow> py_error + 'a" where
  \<comment> \<open>\<^verbatim>\<open>.iloc[0]\<close>\<close>
  "iloc0 xs = (case xs of [] \<Rightarrow> Inl IndexError | x # _ \<Rightarrow> Inr x)"

section \<open>The data model\<close>

record timestamp =
  ts_year :: int
  ts_month :: nat
  ts_day :: nat
  ts_nanos :: nat

definition ts_le :: "timestamp \<Rightarrow> timestamp \<Rightarrow> bool" where
  \<comment> \<open>Chronological order of two timestamps.\<close>
  "ts_le a b =
     (ts_year a < ts_year b \<or> (ts_year a = ts_year b \<and>
       (ts_month a < ts_month b \<or> (ts_month a = ts_month b \<and>
         (ts_day a < ts_day b \<or> (ts_day a = ts_day b \<and> ts_nanos a \<le> ts_nanos b))))))"

definition datetime_min :: "timestamp option list \<Rightarrow> timestamp option" where
  \<comment> \<open>\<^verbatim>\<open>Series.min()\<close> of a datetime column: NaT is skipped, NaT when nothing is left.\<close>
  "datetime_min col =
     (case dropna col of [] \<Rightarrow> None
      | y # ys \<Rightarrow> Some (fold (\<lambda>t m. if ts_le t m then t else m) ys y))"

definition datetime_max :: "timestamp option list \<Rightarrow> timestamp option" where
  "datetime_max col =
     (case dropna col of [] \<Rightarrow> None
      | y # ys \<Rightarrow> Some (fold (\<lambda>t m. if ts_le m t then t else m) ys y))"

text \<open>
  \<^verbatim>\<open>pd.to_datetime(column, errors='coerce')\<close> is pandas' date parser and not code of the
  repository: it is a parameter of the model. A parser receives the column (pandas may
  infer one format for the whole column) and the text of one cell, and answers the
  timestamp or \<open>None\<close> when the text does not parse. With \<^verbatim>\<open>errors='coerce'\<close> a cell
  that does not parse becomes NaT, and a NaN cell stays NaT.
\<close>

type_synonym date_parser = "string option list \<Rightarrow> string \<Rightarrow> timestamp option"

definition to_datetime_coerce :: "date_parser \<Rightarrow> string option list \<Rightarrow> timestamp option list" where
  "to_datetime_coerce parse col =
     map (\<lambda>cell. case cell of None \<Rightarrow> None | Some s \<Rightarrow> parse col s) col"

definition dt_year :: "timestamp option \<Rightarrow> int option" where
  \<comment> \<open>One cell of \<^verbatim>\<open>.dt.year\<close>: NaN for NaT.\<close>
  "dt_year t = map_option ts_year t"

record csv_row =
  csv_title :: "string option"
  csv_abstract :: "string option"
  csv_authors :: "string option"
  csv_journal :: "string option"
  csv_source :: "string option"
  csv_publish_time :: "string option"

text \<open>
  The frame \<^verbatim>\<open>read_csv\<close> returns: the header's column names and the rows. The field of a
  row for a column the header lacks is never read.
\<close>

record csv_file =
  file_columns :: "string list"
  file_rows :: "csv_row list"

record paper =
  title :: "string option"
  abstract :: "string option"
  authors :: "string option"
  journal :: "string option"
  source :: "string option"
  publish_time :: "timestamp option"
  year :: "int option"
  abstract_word_count :: nat
  title_word_count :: nat

definition read_csv :: "csv_file option \<Rightarrow> py_error + csv_file" where
  \<comment> \<open>The argument is what the file system holds at \<^verbatim>\<open>data/sample_metadata.csv\<close>.\<close>
  "read_csv disk = (case disk of None \<Rightarrow> Inl FileNotFoundError | Some f \<Rightarrow> Inr f)"

definition has_column :: "csv_file \<Rightarrow> string \<Rightarrow> bool" where
  "has_column f name = (name \<in> set (file_columns f))"

definition word_count :: "string option \<Rightarrow> nat" where
  \<comment> \<open>\<^verbatim>\<open>lambda x: len(str(x).split()) if pd.notna(x) and x != '' else 0\<close>\<close>
  "word_count x = (case x of None \<Rightarrow> 0 | Some s \<Rightarrow> if s = [] then 0 else length (split_ws s))"

section \<open>The interactive explorer (app.py)\<close>

definition load_row :: "csv_row \<Rightarrow> timestamp option \<Rightarrow> paper" where
  "load_row r t =
     \<lparr> title = csv_title r, abstract = csv_abstract r, authors = csv_authors r,
       journal = csv_journal r, source = csv_source r,
       publish_time = t, year = dt_year t,
       abstract_word_count = word_count (csv_abstract r),
       title_word_count = word_count (csv_title r) \<rparr>"

definition load_data :: "date_parser \<Rightarrow> csv_file option \<Rightarrow> py_error + paper list option" where
  \<comment> \<open>\<open>Inr None\<close>: the \<^verbatim>\<open>except FileNotFoundError\<close> branch (\<^verbatim>\<open>st.error\<close>, \<^verbatim>\<open>return None\<close>).
      \<open>Inl e\<close>: an exception the \<^verbatim>\<open>try\<close> does not catch.\<close>
  "load_data parse disk =
     (case read_csv disk of
        Inl FileNotFoundError \<Rightarrow> Inr None
      | Inl e \<Rightarrow> Inl e
      | Inr df \<Rightarrow>
          if \<not> has_column df ''publish_time'' then Inl (KeyError ''publish_time'')
          else if \<not> has_column df ''abstract'' then Inl (KeyError ''abstract'')
          else if \<not> has_column df ''title'' then Inl (KeyError ''title'')
          else Inr (Some (map (\<lambda>(r, t). load_row r t)
                 (zip (file_rows df)
                      (to_datetime_coerce parse (map csv_publish_time (file_rows df)))))))"

definition years :: "paper list \<Rightarrow> int list" where
  \<comment> \<open>\<^verbatim>\<open>sorted(df['year'].dropna().unique())\<close>\<close>
  "years df = sort (unique (dropna (map year df)))"

definition journals :: "paper list \<Rightarrow> string option list" where
  \<comment> \<open>\<^verbatim>\<open>df['journal'].unique()\<close>\<close>
  "journals df = unique (map journal df)"

definition sources :: "paper list \<Rightarrow> string option list" where
  "sources df = unique (map source df)"

text \<open>
  The three multiselect widgets return lists of their options; the options of the year
  widget are \<open>years df\<close>, which holds no NaN, so a year selection is a list of years.
  With nothing deselected a widget returns its options.
\<close>

definition filtered_df ::
    "paper list \<Rightarrow> int list \<Rightarrow> string option list \<Rightarrow> string option list \<Rightarrow> paper list" where
  "filtered_df df selected_years selected_journals selected_sources =
     filter (\<lambda>r. isin (year r) (map Some selected_years)
                \<and> isin (journal r) selected_journals
                \<and> isin (source r) selected_sources) df"

text \<open>
  \<^verbatim>\<open>Series.str.contains(search_term, case=False, na=False)\<close> compiles the term as a
  regular expression and searches each cell. The regular-expression engine is a
  parameter: \<open>re term\<close> is \<open>None\<close> when the term does not compile (\<^verbatim>\<open>re.error\<close>), else
  the case-insensitive search of that pattern in a text.

  The \<^verbatim>\<open>.str\<close> accessor exists on text columns only: on a column of another dtype it
  raises AttributeError. \<^verbatim>\<open>read_csv\<close> fixes the dtype of a column when the file is read,
  and a filtered view keeps it: a column of which every cell is NaN is a float column, a
  column with a text cell is a text (object) column, and so is every column of a frame
  without rows.
\<close>

type_synonym regex_engine = "string \<Rightarrow> (string \<Rightarrow> bool) option"

definition is_text_column :: "string option list \<Rightarrow> bool" where
  \<comment> \<open>Whether the column, as read from the file, has the dtype \<^verbatim>\<open>.str\<close> accepts.\<close>
  "is_text_column col = (col = [] \<or> list_ex (\<lambda>cell. cell \<noteq> None) col)"

definition str_contains :: "(string \<Rightarrow> bool) \<Rightarrow> string option \<Rightarrow> bool" where
  \<comment> \<open>One cell with \<^verbatim>\<open>na=False\<close>.\<close>
  "str_contains m cell = (case cell of None \<Rightarrow> False | Some s \<Rightarrow> m s)"

definition search_mask :: "(string \<Rightarrow> bool) \<Rightarrow> paper \<Rightarrow> bool" where
  "search_mask m r = (str_contains m (title r) \<or> str_contains m (abstract r))"

definition search ::
    "regex_engine \<Rightarrow> string \<Rightarrow> paper list \<Rightarrow> paper list \<Rightarrow> py_error + paper list" where
  \<comment> \<open>The data table tab: \<^verbatim>\<open>if search_term:\<close> narrows the view \<open>view\<close> of the loaded
      frame \<open>df\<close>. In the order of evaluation: \<^verbatim>\<open>.str\<close> on the title column, the
      compilation of the term, \<^verbatim>\<open>.str\<close> on the abstract column, the mask.\<close>
  "search re search_term df view =
     (if search_term = [] then Inr view
      else if \<not> is_text_column (map title df) then Inl AttributeError
      else case re search_term of
             None \<Rightarrow> Inl ReError
           | Some m \<Rightarrow>
               if \<not> is_text_column (map abstract df) then Inl AttributeError
               else Inr (filter (search_mask m) view))"

record overview =
  total_papers :: nat
  unique_journals :: nat
  year_min :: "int option"
  year_max :: "int option"
  avg_abstract_length :: "real option"

definition overview_metrics :: "paper list \<Rightarrow> overview" where
  \<comment> \<open>The four metrics of the overview tab.\<close>
  "overview_metrics view =
     \<lparr> total_papers = length view,
       unique_journals = nunique (map journal view),
       year_min = series_min (map year view),
       year_max = series_max (map year view),
       avg_abstract_length = mean (map abstract_word_count view) \<rparr>"

definition year_counts :: "paper list \<Rightarrow> (int \<times> nat) list" where
  \<comment> \<open>\<^verbatim>\<open>filtered_df['year'].value_counts().sort_index()\<close>\<close>
  "year_counts view = sort_index (value_counts (map year view))"

definition all_titles :: "paper list \<Rightarrow> string" where
  \<comment> \<open>\<^verbatim>\<open>' '.join(view['title'].dropna().astype(str))\<close>\<close>
  "all_titles view = join_space (dropna (map title view))"

definition stop_words_app :: "string list" where
  "stop_words_app =
     [''the'', ''a'', ''an'', ''and'', ''or'', ''but'', ''in'', ''on'', ''at'', ''to'', ''for'',
      ''of'', ''with'', ''by'', ''is'', ''are'', ''was'', ''were'', ''be'', ''been'', ''have'',
      ''has'', ''had'', ''do'', ''does'', ''did'', ''will'', ''would'', ''could'', ''should'',
      ''may'', ''might'', ''can'', ''this'', ''that'', ''these'', ''those'']"

definition app_words :: "string \<Rightarrow> string list" where
  \<comment> \<open>app.py, lines 246 to 250.\<close>
  "app_words text =
     filter (\<lambda>word. word \<notin> set stop_words_app \<and> length word > 2)
       (findall_words (lower text))"

definition app_top_words :: "paper list \<Rightarrow> (string \<times> nat) list option" where
  \<comment> \<open>\<^verbatim>\<open>if words: ... Counter(words).most_common(20)\<close>; nothing is computed otherwise.\<close>
  "app_top_words view =
     (let words = app_words (all_titles view)
      in if words \<noteq> [] then Some (most_common 20 (Counter words)) else None)"

section \<open>The batch analysis (data_analysis.py)\<close>

definition clean_row :: "csv_row \<Rightarrow> timestamp option \<Rightarrow> paper" where
  \<comment> \<open>The abstract is filled with the empty string before the counts are taken.\<close>
  "clean_row r t =
     (let a = (case csv_abstract r of None \<Rightarrow> Some [] | Some s \<Rightarrow> Some s)
      in \<lparr> title = csv_title r, abstract = a, authors = csv_authors r,
           journal = csv_journal r, source = csv_source r,
           publish_time = t, year = dt_year t,
           abstract_word_count = word_count a,
           title_word_count = word_count (csv_title r) \<rparr>)"

definition clean_data :: "date_parser \<Rightarrow> csv_file \<Rightarrow> py_error + paper list" where
  \<comment> \<open>The last step is \<^verbatim>\<open>dropna(subset=['title', 'publish_time'])\<close>.\<close>
  "clean_data parse df =
     (if \<not> has_column df ''abstract'' then Inl (KeyError ''abstract'')
      else if \<not> has_column df ''publish_time'' then Inl (KeyError ''publish_time'')
      else if \<not> has_column df ''title'' then Inl (KeyError ''title'')
      else Inr (filter (\<lambda>p. title p \<noteq> None \<and> publish_time p \<noteq> None)
             (map (\<lambda>(r, t). clean_row r t)
                (zip (file_rows df)
                     (to_datetime_coerce parse (map csv_publish_time (file_rows df)))))))"

definition analyze_publications_by_year :: "paper list \<Rightarrow> (int \<times> nat) list" where
  "analyze_publications_by_year cleaned_df = sort_index (value_counts (map year cleaned_df))"

definition stop_words_batch :: "string list" where
  "stop_words_batch =
     [''the'', ''a'', ''an'', ''and'', ''or'', ''but'', ''in'', ''on'', ''at'', ''to'', ''for'',
      ''of'', ''with'', ''by'', ''is'', ''are'', ''was'', ''were'', ''be'', ''been'', ''have'',
      ''has'', ''had'', ''do'', ''does'', ''did'', ''will'', ''would'', ''could'', ''should'',
      ''may'', ''might'', ''can'', ''this'', ''that'', ''these'', ''those'', ''i'', ''you'',
      ''he'', ''she'', ''it'', ''we'', ''they'', ''me'', ''him'', ''her'', ''us'', ''them'']"

definition batch_words :: "string \<Rightarrow> string list" where
  \<comment> \<open>data_analysis.py, lines 175 to 179.\<close>
  "batch_words text =
     filter (\<lambda>word. word \<notin> set stop_words_batch \<and> length word > 2)
       (findall_words (lower text))"

definition analyze_word_frequency :: "paper list \<Rightarrow> (string \<times> nat) list" where
  \<comment> \<open>The value returned: \<^verbatim>\<open>top_words\<close>.\<close>
  "analyze_word_frequency cleaned_df =
     most_common 20 (Counter (batch_words (all_titles cleaned_df)))"

record report =
  report_total :: nat
  report_first_year :: "int option"
  report_last_year :: "int option"
  report_most_active_year :: int
  report_avg_abstract_length :: "real option"
  report_most_common_journal :: string
  report_primary_source :: string

definition generate_summary_report :: "paper list \<Rightarrow> py_error + report" where
  \<comment> \<open>The lines printed, in order; \<^verbatim>\<open>.mode().iloc[0]\<close> raises IndexError on an empty
      mode. \<^verbatim>\<open>NaT.year\<close> is NaN.\<close>
  "generate_summary_report cleaned_df =
     (let n = length cleaned_df;
          first_year = dt_year (datetime_min (map publish_time cleaned_df));
          last_year = dt_year (datetime_max (map publish_time cleaned_df))
      in case iloc0 (mode (map year cleaned_df)) of
           Inl e \<Rightarrow> Inl e
         | Inr y \<Rightarrow>
             (let avg = mean (map abstract_word_count cleaned_df)
              in case iloc0 (mode (map journal cleaned_df)) of
                   Inl e \<Rightarrow> Inl e
                 | Inr j \<Rightarrow>
                     (case iloc0 (mode (map source cleaned_df)) of
                        Inl e \<Rightarrow> Inl e
                      | Inr s \<Rightarrow>
                          Inr \<lparr> report_total = n, report_first_year = first_year,
                                report_last_year = last_year, report_most_active_year = y,
                                report_avg_abstract_length = avg,
                                report_most_common_journal = j,
                                report_primary_source = s \<rparr>)))"

section \<open>Notions used to state the properties\<close>

definition first_index :: "'a list \<Rightarrow> 'a \<Rightarrow> nat" where
  \<comment> \<open>The position of the first appearance of \<open>w\<close> in \<open>ws\<close>.\<close>
  "first_index ws w = length (takeWhile (\<lambda>x. x \<noteq> w) ws)"

definition by_count_then_first :: "'a list \<Rightarrow> ('a \<times> nat) \<Rightarrow> ('a \<times> nat) \<Rightarrow> bool" where
  \<comment> \<open>The order of a frequency table: the larger count first and, among equal counts,
      the word that appears first in \<open>ws\<close>.\<close>
  "by_count_then_first ws a b =
     (snd b < snd a \<or> (snd a = snd b \<and> first_index ws (fst a) < first_index ws (fst b)))"

subsection \<open>Example data\<close>

text \<open>
  A date parser and a regular-expression engine for the examples. Each answers what
  pandas and \<^verbatim>\<open>re\<close> answer on the inputs the examples give it: two ISO dates parse, the
  text \<^verbatim>\<open>not a date\<close> does not; a pattern of letters, digits and blanks is a literal
  that is searched without regard to case, and \<^verbatim>\<open>(\<close> does not compile.
\<close>

definition example_parse :: date_parser where
  "example_parse col s =
     (if s = ''2020-03-15''
        then Some \<lparr> ts_year = 2020, ts_month = 3, ts_day = 15, ts_nanos = 0 \<rparr>
      else if s = ''2021-07-01''
        then Some \<lparr> ts_year = 2021, ts_month = 7, ts_day = 1, ts_nanos = 0 \<rparr>
      else None)"

fun contains_text :: "string \<Rightarrow> string \<Rightarrow> bool" where
  "contains_text pat [] = (pat = [])"
| "contains_text pat (c # cs) = (prefix pat (c # cs) \<or> contains_text pat cs)"

definition example_re :: regex_engine where
  "example_re pat =
     (if list_all (\<lambda>c. is_word_char c \<or> c = CHR '' '') pat
        then Some (\<lambda>text. contains_text (lower pat) (lower text))
      else None)"

definition example_row_a :: csv_row where
  "example_row_a =
     \<lparr> csv_title = Some ''Novel Virus Study'', csv_abstract = Some ''What they know'',
       csv_authors = Some ''Doe J'', csv_journal = Some ''A'', csv_source = Some ''PMC'',
       csv_publish_time = Some ''2020-03-15'' \<rparr>"

definition example_row_b :: csv_row where
  "example_row_b =
     \<lparr> csv_title = Some ''Vaccine trial'', csv_abstract = None,
       csv_authors = None, csv_journal = Some ''B'', csv_source = Some ''PMC'',
       csv_publish_time = Some ''not a date'' \<rparr>"

definition example_columns :: "string list" where
  "example_columns = [''title'', ''abstract'', ''authors'', ''journal'', ''source'', ''publish_time'']"

definition example_file :: csv_file where
  "example_file = \<lparr> file_columns = example_columns, file_rows = [example_row_a, example_row_b] \<rparr>"

definition example_file_no_title :: csv_file where
  \<comment> \<open>The example file without its title column.\<close>
  "example_file_no_title =
     example_file \<lparr> file_columns :=
       [''abstract'', ''authors'', ''journal'', ''source'', ''publish_time''] \<rparr>"

definition example_words :: "string list" where
  "example_words = [''trial'', ''study'', ''virus'', ''virus'', ''study'']"

definition example_paper_a :: paper where
  "example_paper_a =
     \<lparr> title = Some ''Novel Virus Study'', abstract = Some ''What they know'',
       authors = Some ''Doe J'', journal = Some ''A'', source = Some ''PMC'',
       publish_time = Some \<lparr> ts_year = 2020, ts_month = 3, ts_day = 15, ts_nanos = 0 \<rparr>,
       year = Some 2020, abstract_word_count = 3, title_word_count = 3 \<rparr>"

definition example_paper_b :: paper where
  "example_paper_b =
     \<lparr> title = Some ''Vaccine trial'', abstract = None,
       authors = None, journal = Some ''B'', source = Some ''PMC'',
       publish_time = None, year = None, abstract_word_count = 0, title_word_count = 2 \<rparr>"

definition example_store :: "paper list" where
  "example_store = [example_paper_a, example_paper_b]"

definition untitled_paper :: paper where
  \<comment> \<open>A record without title and abstract.\<close>
  "untitled_paper =
     \<lparr> title = None, abstract = None, authors = Some ''Roe R'', journal = Some ''A'',
       source = Some ''PMC'',
       publish_time = Some \<lparr> ts_year = 2021, ts_month = 7, ts_day = 1, ts_nanos = 0 \<rparr>,
       year = Some 2021, abstract_word_count = 0, title_word_count = 0 \<rparr>"

section \<open>Facts about the primitives\<close>

lemma set_unique: "set (unique xs) = set xs"
  by (induction xs) auto

lemma distinct_unique: "distinct (unique xs)"
  by (induction xs) (auto simp: distinct_removeAll)

lemma set_dropna: "set (dropna xs) = {x. Some x \<in> set xs}"
  by (induction xs rule: dropna.induct) auto

lemma dropna_all_present: "None \<notin> set xs \<Longrightarrow> length (dropna xs) = length xs"
  by (induction xs rule: dropna.induct) auto

lemma sum_counter_add: "sum_list (map snd (counter_add d w)) = Suc (sum_list (map snd d))"
  by (induction d w rule: counter_add.induct) auto

lemma sum_foldl_counter_add:
  "sum_list (map snd (foldl counter_add d ws)) = sum_list (map snd d) + length ws"
  by (induction ws arbitrary: d) (auto simp: sum_counter_add)

lemma sum_Counter: "sum_list (map snd (Counter ws)) = length ws"
  by (simp add: Counter_def sum_foldl_counter_add)

lemma sum_list_insort_key:
  "sum_list (map g (insort_key f x xs)) = (g x :: nat) + sum_list (map g xs)"
  by (induction xs) auto

lemma sum_list_sort_key:
  "sum_list (map g (sort_key f xs)) = sum_list (map (g :: _ \<Rightarrow> nat) xs)"
  by (induction xs) (auto simp: sum_list_insort_key)

lemma sum_value_counts: "sum_list (map snd (value_counts col)) = length (dropna col)"
  by (simp add: value_counts_def sum_list_sort_key sum_Counter)

text \<open>The table of \<open>Counter\<close>: each distinct word with its number of occurrences, in order
  of first appearance.\<close>

lemma Counter_snoc: "Counter (ws @ [w]) = counter_add (Counter ws) w"
  by (simp add: Counter_def)

lemma counter_add_fresh:
  "w \<notin> set ks \<Longrightarrow>
   counter_add (map (\<lambda>k. (k, f k)) ks) w = map (\<lambda>k. (k, f k)) ks @ [(w, 1)]"
  by (induction ks) auto

lemma counter_add_present:
  "distinct ks \<Longrightarrow> w \<in> set ks \<Longrightarrow>
   counter_add (map (\<lambda>k. (k, f k)) ks) w =
     map (\<lambda>k. (k, if k = w then f k + 1 else f k)) ks"
  by (induction ks) auto

lemma unique_snoc:
  "unique (ws @ [w]) = (if w \<in> set ws then unique ws else unique ws @ [w])"
  by (induction ws) auto

lemma Counter_eq: "Counter ws = map (\<lambda>k. (k, count_list ws k)) (unique ws)"
proof (induction ws rule: rev_induct)
  case Nil
  show ?case by (simp add: Counter_def)
next
  case (snoc w ws)
  show ?case
  proof (cases "w \<in> set ws")
    case True
    then have "counter_add (map (\<lambda>k. (k, count_list ws k)) (unique ws)) w =
       map (\<lambda>k. (k, if k = w then count_list ws k + 1 else count_list ws k)) (unique ws)"
      by (intro counter_add_present) (simp_all add: distinct_unique set_unique)
    with True snoc show ?thesis
      by (simp add: Counter_snoc unique_snoc)
  next
    case False
    then have "counter_add (map (\<lambda>k. (k, count_list ws k)) (unique ws)) w =
       map (\<lambda>k. (k, count_list ws k)) (unique ws) @ [(w, 1)]"
      by (intro counter_add_fresh) (simp add: set_unique)
    with False snoc show ?thesis
      by (auto simp: Counter_snoc unique_snoc set_unique)
  qed
qed

lemma first_index_Cons:
  "first_index (x # xs) y = (if y = x then 0 else Suc (first_index xs y))"
  by (simp add: first_index_def)

lemma unique_ordered:
  "sorted_wrt (\<lambda>a b. first_index ws a < first_index ws b) (unique ws)"
proof (induction ws)
  case Nil
  show ?case by simp
next
  case (Cons x xs)
  have "sorted_wrt (\<lambda>a b. first_index xs a < first_index xs b) (removeAll x (unique xs))"
    using Cons by (simp add: removeAll_filter_not_eq sorted_wrt_filter)
  then have "sorted_wrt (\<lambda>a b. first_index (x # xs) a < first_index (x # xs) b)
      (removeAll x (unique xs))"
    by (rule sorted_wrt_mono_rel [rotated]) (auto simp: first_index_Cons)
  then show ?case by (auto simp: first_index_Cons)
qed

text \<open>The insertion sort behind \<open>sort_key\<close> is stable: elements of equal key keep the
  order \<open>Q\<close> they had.\<close>

lemma insort_key_stable:
  assumes "sorted_wrt (\<lambda>a b. f a < f b \<or> (f a = f b \<and> Q a b)) ys"
    and "\<forall>y \<in> set ys. Q x y"
  shows "sorted_wrt (\<lambda>a b. f a < f b \<or> (f a = f b \<and> Q a b)) (insort_key f x ys)"
  using assms
proof (induction ys)
  case Nil
  show ?case by simp
next
  case (Cons y ys)
  show ?case
  proof (cases "f x \<le> f y")
    case True
    have "f x < f z \<or> (f x = f z \<and> Q x z)" if "z \<in> set (y # ys)" for z
    proof -
      have "f y \<le> f z" using Cons.prems(1) that by auto
      with True have "f x \<le> f z" by simp
      moreover have "Q x z" using Cons.prems(2) that by auto
      ultimately show ?thesis by auto
    qed
    with True Cons.prems(1) show ?thesis by simp
  next
    case False
    with Cons show ?thesis by (auto simp: set_insort_key)
  qed
qed

lemma sort_key_stable_wrt:
  "sorted_wrt Q xs \<Longrightarrow>
   sorted_wrt (\<lambda>a b. f a < f b \<or> (f a = f b \<and> Q a b)) (sort_key f xs)"
  by (induction xs) (auto intro: insort_key_stable)

lemma most_common_sorted:
  "sorted_wrt (by_count_then_first ws) (most_common n (Counter ws))"
proof -
  have "sorted_wrt (\<lambda>a b. first_index ws (fst a) < first_index ws (fst b)) (Counter ws)"
    using unique_ordered [of ws] by (simp add: Counter_eq sorted_wrt_map)
  then have "sorted_wrt (\<lambda>a b. - int (snd a) < - int (snd b) \<or>
        (- int (snd a) = - int (snd b) \<and> first_index ws (fst a) < first_index ws (fst b)))
      (sort_key (\<lambda>p. - int (snd p)) (Counter ws))"
    by (rule sort_key_stable_wrt)
  then have "sorted_wrt (by_count_then_first ws) (sort_key (\<lambda>p. - int (snd p)) (Counter ws))"
    by (rule sorted_wrt_mono_rel [rotated]) (auto simp: by_count_then_first_def)
  then show ?thesis
    by (simp add: most_common_def sorted_wrt_take)
qed

lemma most_common_set: "set (most_common n (Counter ws)) \<subseteq> set (Counter ws)"
  using set_take_subset [of "nat n" "sort_key (\<lambda>p. - int (snd p)) (Counter ws)"]
  by (simp add: most_common_def)

lemma filter_mono_subseq:
  assumes "\<And>x. x \<in> set xs \<Longrightarrow> P x \<Longrightarrow> Q x"
  shows "subseq (filter P xs) (filter Q xs)"
proof -
  have "filter P xs = filter P (filter Q xs)"
    using assms by (auto intro: filter_cong)
  then show ?thesis by (metis subseq_filter_left)
qed

lemma set_years: "(y \<in> set (years df)) = (\<exists>r \<in> set df. year r = Some y)"
proof -
  have "(Some y \<in> year ` set df) = (\<exists>r \<in> set df. year r = Some y)"
    by (auto simp: image_iff) (metis)
  then show ?thesis by (simp add: years_def set_unique set_dropna)
qed

lemma isin_years: "r \<in> set df \<Longrightarrow> isin (year r) (map Some (years df)) = (year r \<noteq> None)"
proof (cases "year r")
  case None
  then show ?thesis by (auto simp: isin_def)
next
  case (Some y)
  assume "r \<in> set df"
  with Some have "y \<in> set (years df)" by (auto simp: set_years)
  with Some show ?thesis by (simp add: isin_def)
qed

lemma isin_journals: "r \<in> set df \<Longrightarrow> isin (journal r) (journals df)"
  by (simp add: isin_def journals_def set_unique)

lemma isin_sources: "r \<in> set df \<Longrightarrow> isin (source r) (sources df)"
  by (simp add: isin_def sources_def set_unique)

lemma all_titles_absent: "\<forall>r \<in> set view. title r = None \<Longrightarrow> all_titles view = []"
  by (induction view) (auto simp: all_titles_def)

subsection \<open>The examples, evaluated\<close>

lemmas example_defs = example_file_def example_columns_def example_row_a_def
  example_row_b_def example_parse_def example_store_def example_paper_a_def
  example_paper_b_def

lemma example_load: "load_data example_parse (Some example_file) = Inr (Some example_store)"
  by code_simp

lemma example_years: "years example_store = [2020]"
  by (simp add: years_def example_defs)

lemma example_select_all:
  "filtered_df example_store (years example_store) (journals example_store)
     (sources example_store) = [example_paper_a]"
  unfolding example_years
  by (simp add: filtered_df_def isin_def journals_def sources_def example_defs)

lemma example_clean: "clean_data example_parse example_file = Inr [example_paper_a]"
  by code_simp

lemma example_no_title:
  "load_data example_parse (Some example_file_no_title) = Inl (KeyError ''title'')"
  by code_simp





lemma example_top_words:
  "most_common 2 (Counter example_words) = [(''study'', 2), (''virus'', 2)]
   \<and> first_index example_words ''study'' = 1
   \<and> first_index example_words ''virus'' = 2"
  by code_simp

lemma example_view:
  "filtered_df (example_store @ [untitled_paper, example_paper_a]) [2020, 2021]
     [Some ''A'', Some ''B''] [Some ''PMC''] = [example_paper_a, untitled_paper, example_paper_a]"
  by code_simp

lemma example_year_counts:
  "year_counts [example_paper_a, untitled_paper, example_paper_a] = [(2020, 2), (2021, 1)]
   \<and> analyze_publications_by_year [example_paper_a] = [(2020, 1)]"
  by code_simp

section \<open>Loading\<close>

lemma to_datetime_nth:
  "i < length col \<Longrightarrow> to_datetime_coerce parse col ! i =
     (case col ! i of None \<Rightarrow> None | Some s \<Rightarrow> parse col s)"
  by (simp add: to_datetime_coerce_def)

lemma length_to_datetime: "length (to_datetime_coerce parse col) = length col"
  by (simp add: to_datetime_coerce_def)

lemma load_data_loads:
  assumes "has_column df ''publish_time''" and "has_column df ''abstract''"
    and "has_column df ''title''"
  shows "load_data parse (Some df) =
     Inr (Some (map (\<lambda>(r, t). load_row r t)
        (zip (file_rows df) (to_datetime_coerce parse (map csv_publish_time (file_rows df))))))"
  using assms by (simp add: load_data_def read_csv_def)

lemma clean_data_rows:
  assumes "clean_data parse df = Inr cleaned_df"
  shows "\<forall>p \<in> set cleaned_df. title p \<noteq> None \<and> publish_time p \<noteq> None \<and> year p \<noteq> None"
proof -
  have "cleaned_df = filter (\<lambda>p. title p \<noteq> None \<and> publish_time p \<noteq> None)
             (map (\<lambda>(r, t). clean_row r t)
                (zip (file_rows df)
                     (to_datetime_coerce parse (map csv_publish_time (file_rows df)))))"
    using assms by (auto simp: clean_data_def split: if_splits)
  then show ?thesis
    by (auto simp: clean_row_def dt_year_def Let_def)
qed

text \<open>
  C2 (amended). Take a file with the columns the load reads and a row whose
  publish_time text does not parse. The explorer's \<open>load_data\<close> does not abort: it
  returns a store with one record per row, and the record of that row has an absent
  publish_time and an absent year and otherwise the row's cells. The batch script's
  \<open>clean_data\<close> does not abort either, but its result has fewer records than the file
  has rows and holds only records with a publish_time and a year: the row is removed by
  the \<^verbatim>\<open>dropna\<close> on title and publish_time.
\<close>

theorem unparseable_date_rows:
  assumes "has_column df ''publish_time''" and "has_column df ''abstract''"
    and "has_column df ''title''"
    and "i < length (file_rows df)"
    and "csv_publish_time (file_rows df ! i) = Some s"
    and "parse (map csv_publish_time (file_rows df)) s = None"
  shows "(\<exists>store. load_data parse (Some df) = Inr (Some store)
            \<and> length store = length (file_rows df)
            \<and> store ! i = load_row (file_rows df ! i) None
            \<and> publish_time (store ! i) = None \<and> year (store ! i) = None)
       \<and> (\<exists>cleaned_df. clean_data parse df = Inr cleaned_df
            \<and> length cleaned_df < length (file_rows df)
            \<and> list_all (\<lambda>p. publish_time p \<noteq> None \<and> year p \<noteq> None) cleaned_df)"
proof -
  let ?col = "map csv_publish_time (file_rows df)"
  let ?ts = "to_datetime_coerce parse ?col"
  have nat: "?ts ! i = None"
    using assms(4-6) by (simp add: to_datetime_nth)
  let ?store = "map (\<lambda>(r, t). load_row r t) (zip (file_rows df) ?ts)"
  have "?store ! i = load_row (file_rows df ! i) None"
    using assms(4) nat by (simp add: length_to_datetime)
  moreover have "length ?store = length (file_rows df)"
    by (simp add: length_to_datetime)
  ultimately have app: "\<exists>store. load_data parse (Some df) = Inr (Some store)
            \<and> length store = length (file_rows df)
            \<and> store ! i = load_row (file_rows df ! i) None
            \<and> publish_time (store ! i) = None \<and> year (store ! i) = None"
    using load_data_loads [OF assms(1-3), of parse]
    by (simp add: load_row_def dt_year_def)
  let ?all = "map (\<lambda>(r, t). clean_row r t) (zip (file_rows df) ?ts)"
  let ?keep = "\<lambda>p. title p \<noteq> None \<and> publish_time p \<noteq> None"
  have cd: "clean_data parse df = Inr (filter ?keep ?all)"
    using assms(1-3) by (simp add: clean_data_def)
  have "?all ! i = clean_row (file_rows df ! i) None"
    using assms(4) nat by (simp add: length_to_datetime)
  then have "\<not> ?keep (?all ! i)" by (simp add: clean_row_def Let_def)
  moreover have "?all ! i \<in> set ?all"
    using assms(4) by (intro nth_mem) (simp add: length_to_datetime)
  ultimately have "length (filter ?keep ?all) < length ?all"
    by (intro length_filter_less) auto
  then have "length (filter ?keep ?all) < length (file_rows df)"
    by (simp add: length_to_datetime)
  moreover have "list_all (\<lambda>p. publish_time p \<noteq> None \<and> year p \<noteq> None) (filter ?keep ?all)"
    using clean_data_rows [OF cd] by (simp add: list_all_iff)
  ultimately show ?thesis using app cd by blast
qed

text \<open>
  The amended C2 at the example file, whose second row has the date \<^verbatim>\<open>not a date\<close>:
  the explorer keeps the row without date and year, the batch script keeps one row of two.
\<close>

theorem unparseable_date_rows_witness:
  "has_column example_file ''publish_time'' \<and> has_column example_file ''abstract''
   \<and> has_column example_file ''title'' \<and> 1 < length (file_rows example_file)
   \<and> csv_publish_time (file_rows example_file ! 1) = Some ''not a date''
   \<and> example_parse (map csv_publish_time (file_rows example_file)) ''not a date'' = None
   \<and> load_data example_parse (Some example_file) = Inr (Some example_store)
   \<and> publish_time (example_store ! 1) = None \<and> year (example_store ! 1) = None
   \<and> (\<exists>cleaned_df. clean_data example_parse example_file = Inr cleaned_df
        \<and> length cleaned_df < length (file_rows example_file))"
proof -
  have h: "has_column example_file ''publish_time''" "has_column example_file ''abstract''"
    "has_column example_file ''title''" "1 < length (file_rows example_file)"
    "csv_publish_time (file_rows example_file ! 1) = Some ''not a date''"
    "example_parse (map csv_publish_time (file_rows example_file)) ''not a date'' = None"
    by (simp_all add: has_column_def example_defs)
  from unparseable_date_rows [of example_file 1 "''not a date''" example_parse, OF h]
  show ?thesis
    using h example_load by auto
qed

text \<open>
  C2 as stated fails on the batch script: the row of the example file whose date does
  not parse is not in the cleaned dataset, which holds the other row only.
\<close>

theorem clean_data_drops_unparseable_row:
  "csv_publish_time (file_rows example_file ! 1) = Some ''not a date''
   \<and> example_parse (map csv_publish_time (file_rows example_file)) ''not a date'' = None
   \<and> length (file_rows example_file) = 2
   \<and> clean_data example_parse example_file = Inr [example_paper_a]"
  using example_clean by (simp add: example_defs)

text \<open>
  C4 (amended). \<open>load_data\<close> answers the handled outcome (\<^verbatim>\<open>st.error\<close> and \<^verbatim>\<open>None\<close>)
  exactly when the file is missing. A file that lacks publish_time, abstract or title
  makes it raise KeyError, which the \<^verbatim>\<open>try\<close> does not catch; a file with these three
  columns loads, one record per row, whatever other columns it has or lacks (authors,
  journal and source are not read by the load).
\<close>

theorem load_data_outcomes:
  "load_data parse None = Inr None
   \<and> load_data parse (Some df) \<noteq> Inr None
   \<and> (\<not> (has_column df ''publish_time'' \<and> has_column df ''abstract'' \<and> has_column df ''title'')
        \<longrightarrow> (\<exists>c. load_data parse (Some df) = Inl (KeyError c) \<and> \<not> has_column df c))
   \<and> (has_column df ''publish_time'' \<and> has_column df ''abstract'' \<and> has_column df ''title''
        \<longrightarrow> (\<exists>store. load_data parse (Some df) = Inr (Some store)
               \<and> length store = length (file_rows df)))"
  by (auto simp: load_data_def read_csv_def length_to_datetime)

text \<open>
  The amended C4 at the missing file, at the example file without its title column and
  at the example file cut down to the three columns the load reads.
\<close>

theorem load_data_outcomes_witness:
  "load_data example_parse None = Inr None
   \<and> \<not> has_column example_file_no_title ''title''
   \<and> (\<exists>c. load_data example_parse (Some example_file_no_title) = Inl (KeyError c))
   \<and> has_column (example_file \<lparr> file_columns := [''title'', ''abstract'', ''publish_time''] \<rparr>)
        ''publish_time''
   \<and> (\<exists>store. load_data example_parse
          (Some (example_file \<lparr> file_columns := [''title'', ''abstract'', ''publish_time''] \<rparr>))
          = Inr (Some store) \<and> length store = 2)"
proof -
  let ?three = "example_file \<lparr> file_columns := [''title'', ''abstract'', ''publish_time''] \<rparr>"
  have a: "\<not> has_column example_file_no_title ''title''"
    by (simp add: has_column_def example_file_no_title_def example_defs)
  have b: "has_column ?three ''publish_time'' \<and> has_column ?three ''abstract''
      \<and> has_column ?three ''title''" "length (file_rows ?three) = 2"
    by (simp_all add: has_column_def example_defs)
  show ?thesis
    using load_data_outcomes [of example_parse example_file_no_title]
      load_data_outcomes [of example_parse ?three] a b
    by auto
qed

text \<open>
  C4 as stated fails: for the example file without its title column \<open>load_data\<close> does
  not answer the handled outcome, it raises KeyError.
\<close>

theorem load_data_missing_column_raises:
  "load_data example_parse (Some example_file_no_title) = Inl (KeyError ''title'')
   \<and> load_data example_parse (Some example_file_no_title) \<noteq> Inr None"
  using example_no_title by simp

section \<open>The filter of the explorer\<close>

text \<open>
  C1 (amended). With nothing deselected (the year widget offers \<open>years df\<close>, the journal
  and source widgets every value of their columns) and no search term, the filter returns
  exactly the records whose derived year is present, in the original row order; a record
  whose year is absent is left out. The result is the full store exactly when every record
  has a year.
\<close>

theorem select_all_keeps_dated_records:
  "filtered_df df (years df) (journals df) (sources df) = filter (\<lambda>r. year r \<noteq> None) df
   \<and> search re [] df (filtered_df df (years df) (journals df) (sources df))
       = Inr (filter (\<lambda>r. year r \<noteq> None) df)
   \<and> ((filtered_df df (years df) (journals df) (sources df) = df)
       = list_all (\<lambda>r. year r \<noteq> None) df)"
proof -
  have sel: "filtered_df df (years df) (journals df) (sources df)
             = filter (\<lambda>r. year r \<noteq> None) df"
    unfolding filtered_df_def
    by (rule filter_cong) (simp_all add: isin_years isin_journals isin_sources)
  have "(filter (\<lambda>r. year r \<noteq> None) df = df) = list_all (\<lambda>r. year r \<noteq> None) df"
    by (simp add: filter_id_conv list_all_iff)
  with sel show ?thesis by (simp add: search_def)
qed

text \<open>The amended C1 at the example store: the record without a year is left out.\<close>

theorem select_all_keeps_dated_records_witness:
  "filtered_df example_store (years example_store) (journals example_store)
     (sources example_store) = [example_paper_a]
   \<and> search example_re [] example_store (filtered_df example_store (years example_store)
        (journals example_store) (sources example_store)) = Inr [example_paper_a]"
proof -
  have "filter (\<lambda>r. year r \<noteq> None) example_store = [example_paper_a]"
    by (simp add: example_defs)
  then show ?thesis
    using select_all_keeps_dated_records [of example_store example_re]
    by (simp add: search_def)
qed

text \<open>
  C1 as stated fails: the example file loads into a store of two records, the second
  with an unparseable date and hence no year; selecting everything returns one record.
\<close>

theorem select_all_drops_undated_record:
  "load_data example_parse (Some example_file) = Inr (Some example_store)
   \<and> year (example_store ! 1) = None
   \<and> filtered_df example_store (years example_store) (journals example_store)
        (sources example_store) \<noteq> example_store"
proof -
  have "year (example_store ! 1) = None"
    by (simp add: example_store_def example_paper_b_def)
  moreover have "[example_paper_a] \<noteq> example_store"
    by (simp add: example_store_def)
  ultimately show ?thesis
    using example_load example_select_all by simp
qed

text \<open>
  C8. When the year, journal and source selections of one criteria are subsets of those
  of another, the view of the first is a subsequence, in row order, of the view of the
  second.
\<close>

theorem filtered_df_monotone:
  assumes "set ys1 \<subseteq> set ys2" and "set js1 \<subseteq> set js2" and "set ss1 \<subseteq> set ss2"
  shows "subseq (filtered_df df ys1 js1 ss1) (filtered_df df ys2 js2 ss2)"
  unfolding filtered_df_def
  using assms by (intro filter_mono_subseq) (auto simp: isin_def)

text \<open>C8 at the example store: the view of one journal within the view of both.\<close>

theorem filtered_df_monotone_witness:
  "subseq (filtered_df example_store [2020] [Some ''A''] [Some ''PMC''])
          (filtered_df example_store [2020, 2021] [Some ''A'', Some ''B''] [Some ''PMC''])
   \<and> filtered_df example_store [2020] [Some ''A''] [Some ''PMC''] = [example_paper_a]"
  using filtered_df_monotone [of "[2020]" "[2020, 2021]" "[Some ''A'']"
      "[Some ''A'', Some ''B'']" "[Some ''PMC'']" "[Some ''PMC'']" example_store]
  by (simp add: filtered_df_def isin_def example_defs)




section \<open>The word lists\<close>

text \<open>
  What holds of both word lists: no word of two characters or fewer, a subsequence of the
  lower-cased word extraction of the text, no word of the program's own stop-word list;
  the empty text gives the empty list, and so does a view none of whose titles is present
  (absent titles are dropped before the titles are joined). The stop-word list of the
  batch script is the full one (articles, conjunctions, auxiliary verbs and pronouns) and
  holds every word of the explorer's list.
\<close>

lemma stop_words_app_subset: "set stop_words_app \<subseteq> set stop_words_batch"
  by (simp add: stop_words_app_def stop_words_batch_def)

lemma word_lists_short_subseq:
  "(\<forall>w \<in> set (app_words text). w \<notin> set stop_words_app \<and> 2 < length w)
   \<and> subseq (app_words text) (findall_words (lower text))
   \<and> (\<forall>w \<in> set (batch_words text). w \<notin> set stop_words_batch \<and> 2 < length w)
   \<and> subseq (batch_words text) (findall_words (lower text))
   \<and> app_words [] = [] \<and> batch_words [] = []
   \<and> ((\<forall>r \<in> set view. title r = None) \<longrightarrow>
        app_words (all_titles view) = [] \<and> batch_words (all_titles view) = [])"
proof -
  have empty: "app_words [] = []" "batch_words [] = []"
    by (simp_all add: app_words_def batch_words_def findall_words_def lower_def)
  have "(\<forall>r \<in> set view. title r = None) \<longrightarrow>
        app_words (all_titles view) = [] \<and> batch_words (all_titles view) = []"
    using empty by (simp add: all_titles_absent)
  then show ?thesis
    using empty by (simp add: app_words_def batch_words_def)
qed

text \<open>
  C6. The word list of the explorer can hold a stop word: its stop-word list lacks the
  pronouns, and on the text below it keeps \<^verbatim>\<open>they\<close>, a word of the stop-word list of the
  batch script, which drops it.
\<close>

theorem explorer_keeps_stop_word:
  "''they'' \<in> set (app_words ''What they know'')
   \<and> ''they'' \<in> set stop_words_batch
   \<and> ''they'' \<notin> set (batch_words ''What they know'')"
  by code_simp

text \<open>
  C7. For every word sequence and every \<open>n > 0\<close>, the table
  \<^verbatim>\<open>Counter(words).most_common(n)\<close> is in descending order of count; of two entries with
  the same count, the one listed first is the word that appears first in the sequence;
  the table has at most \<open>n\<close> entries and at most one per distinct word; each entry is a
  word of the sequence with its number of occurrences.
\<close>

theorem most_common_ordered:
  assumes "0 < n"
  shows "(\<forall>i j. i < j \<and> j < length (most_common n (Counter ws)) \<longrightarrow>
            snd (most_common n (Counter ws) ! j) \<le> snd (most_common n (Counter ws) ! i))
       \<and> (\<forall>i j. i < j \<and> j < length (most_common n (Counter ws))
              \<and> snd (most_common n (Counter ws) ! i) = snd (most_common n (Counter ws) ! j) \<longrightarrow>
            first_index ws (fst (most_common n (Counter ws) ! i))
              < first_index ws (fst (most_common n (Counter ws) ! j)))
       \<and> length (most_common n (Counter ws)) \<le> nat n
       \<and> length (most_common n (Counter ws)) \<le> card (set ws)
       \<and> list_all (\<lambda>p. fst p \<in> set ws \<and> snd p = count_list ws (fst p))
            (most_common n (Counter ws))"
proof -
  let ?r = "most_common n (Counter ws)"
  have ord: "by_count_then_first ws (?r ! i) (?r ! j)" if "i < j" "j < length ?r" for i j
    using most_common_sorted [of ws n] that by (simp add: sorted_wrt_iff_nth_less)
  have desc: "\<forall>i j. i < j \<and> j < length ?r \<longrightarrow> snd (?r ! j) \<le> snd (?r ! i)"
    using ord by (fastforce simp: by_count_then_first_def)
  have ties: "\<forall>i j. i < j \<and> j < length ?r \<and> snd (?r ! i) = snd (?r ! j) \<longrightarrow>
      first_index ws (fst (?r ! i)) < first_index ws (fst (?r ! j))"
    using ord by (fastforce simp: by_count_then_first_def)
  have "length (Counter ws) = card (set ws)"
    using distinct_card [OF distinct_unique, of ws] by (simp add: Counter_eq set_unique)
  then have len: "length ?r \<le> nat n" "length ?r \<le> card (set ws)"
    by (simp_all add: most_common_def)
  have "list_all (\<lambda>p. fst p \<in> set ws \<and> snd p = count_list ws (fst p)) ?r"
    using most_common_set [of n ws]
    by (auto simp: list_all_iff Counter_eq set_unique)
  with desc ties len show ?thesis by blast
qed

text \<open>
  C7 at the words trial, study, virus, virus, study with \<open>n = 2\<close>: study and virus both
  occur twice, study appears first and is listed first; trial is cut off.
\<close>

theorem most_common_ordered_witness:
  "(0::int) < 2
   \<and> most_common 2 (Counter example_words) = [(''study'', 2), (''virus'', 2)]
   \<and> first_index example_words ''study'' < first_index example_words ''virus''
   \<and> length (most_common 2 (Counter example_words)) \<le> nat 2"
  using most_common_ordered [of 2 example_words] example_top_words
  by simp

text \<open>
  C9. The two programs do not compute the same word list: the stop-word list of the
  batch script also holds pronouns, of which the explorer keeps those longer than two
  characters. On the text below the explorer keeps \<^verbatim>\<open>they\<close>, the batch script drops it.
\<close>

theorem word_lists_differ:
  "app_words ''What they know'' = [''what'', ''they'', ''know'']
   \<and> batch_words ''What they know'' = [''what'', ''know'']"
  by code_simp

section \<open>The summaries\<close>

lemma sum_year_counts:
  assumes "\<forall>r \<in> set view. year r \<noteq> None"
  shows "sum_list (map snd (sort_index (value_counts (map year view)))) = length view"
proof -
  have "None \<notin> set (map year view)" using assms by auto
  then have "length (dropna (map year view)) = length view"
    using dropna_all_present by fastforce
  then show ?thesis by (simp add: sort_index_def sum_list_sort_key sum_value_counts)
qed

lemma filtered_df_year: "r \<in> set (filtered_df df ys js ss) \<Longrightarrow> year r \<noteq> None"
  by (auto simp: filtered_df_def isin_def)

text \<open>
  C5. The counts by year, summed over the years, equal the number of records of the
  view: for every view the filter of the explorer produces (whatever the store and the
  selections; a record without year never passes the year filter), and for every dataset
  \<open>clean_data\<close> returns in the batch script (a row without date is dropped there).
\<close>

theorem year_counts_total:
  "sum_list (map snd (year_counts (filtered_df df ys js ss))) = length (filtered_df df ys js ss)
   \<and> (clean_data parse f = Inr cleaned_df \<longrightarrow>
        sum_list (map snd (analyze_publications_by_year cleaned_df)) = length cleaned_df)"
proof -
  have "sum_list (map snd (year_counts (filtered_df df ys js ss)))
        = length (filtered_df df ys js ss)"
    unfolding year_counts_def
    by (rule sum_year_counts) (auto dest: filtered_df_year)
  moreover have "sum_list (map snd (analyze_publications_by_year cleaned_df)) = length cleaned_df"
    if "clean_data parse f = Inr cleaned_df"
    unfolding analyze_publications_by_year_def
    using clean_data_rows [OF that] by (intro sum_year_counts) auto
  ultimately show ?thesis by blast
qed

text \<open>
  C5 at a view of three records (two of 2020, one of 2021) and at the cleaned example
  file (one record).
\<close>

theorem year_counts_total_witness:
  "year_counts (filtered_df (example_store @ [untitled_paper, example_paper_a]) [2020, 2021]
      [Some ''A'', Some ''B''] [Some ''PMC'']) = [(2020, 2), (2021, 1)]
   \<and> length (filtered_df (example_store @ [untitled_paper, example_paper_a]) [2020, 2021]
      [Some ''A'', Some ''B''] [Some ''PMC'']) = 3
   \<and> clean_data example_parse example_file = Inr [example_paper_a]
   \<and> sum_list (map snd (analyze_publications_by_year [example_paper_a])) = 1"
  using year_counts_total [of "example_store @ [untitled_paper, example_paper_a]"
      "[2020, 2021]" "[Some ''A'', Some ''B'']" "[Some ''PMC'']"
      example_parse example_file "[example_paper_a]"]
    example_view example_year_counts example_clean
  by simp

lemma overview_metrics_empty:
  "overview_metrics [] =
     \<lparr> total_papers = 0, unique_journals = 0, year_min = None, year_max = None,
       avg_abstract_length = None \<rparr>"
  by (simp add: overview_metrics_def nunique_def series_min_def series_max_def mean_def)

text \<open>
  C3. The overview of the explorer is defined on the empty view (lemma
  \<open>overview_metrics_empty\<close>: the counts are zero, the year range and the average are
  absent). The summary report of the batch script is not: on the empty dataset
  \<^verbatim>\<open>mode()\<close> of the year column is empty and \<^verbatim>\<open>.iloc[0]\<close> raises IndexError.
\<close>

theorem summary_report_empty_raises:
  "generate_summary_report [] = Inl IndexError"
  by (simp add: generate_summary_report_def iloc0_def mode_def Counter_def)

end
